theory Spec2Isabelle
  imports Main "HOL-Library.Word"
begin

section \<open>The RPC client adapter of vms/rpcchainvm/vm_client.go\<close>

text \<open>
  The adapter \<^verbatim>\<open>VMClient\<close> translates every method of the consensus VM contract
  into one call on the plugin's RPC stub \<^verbatim>\<open>vm.client\<close> and decodes the reply.
  Go functions return a value together with an \<^verbatim>\<open>error\<close>; both are kept, as a
  pair, because several functions of the file return a non-nil value together with a
  non-nil error. A nil error, like a nil pointer, is \<open>None\<close>.
\<close>

subsection \<open>Values that cross the boundary\<close>

type_synonym byte = "8 word"

text \<open>A Go byte slice, as the list of its bytes.\<close>
type_synonym bytes = "byte list"

text \<open>
  \<^verbatim>\<open>ids.ID\<close> is a fixed-size byte array; it is modelled as the list of its bytes,
  so that the slice \<^verbatim>\<open>blkID[:]\<close> of an identifier is the identifier's own list.
\<close>
type_synonym ID = "byte list"

text \<open>
  The wire timestamp \<^verbatim>\<open>timestamppb.Timestamp\<close>. Messages hold a pointer to it,
  which may be nil: \<open>timestamppb option\<close>.
\<close>
record timestamppb =
  Seconds :: "64 word"
  Nanos :: "32 word"

text \<open>A local \<^verbatim>\<open>time.Time\<close>: an instant, counted in nanoseconds.\<close>
type_synonym Time = int

text \<open>
  The error values the file declares or compares against, and \<open>OtherError\<close> for every
  other error value (a transport failure, a decoding failure, an entry of the error-code
  table), told apart by its message.
\<close>
datatype error =
    errUnsupportedFXs
  | errBatchedParseBlockWrongNumberOfBlocks
  | ErrStateSyncableVMNotImplemented
  | OtherError string

text \<open>
  Modelled from the spec: \<^verbatim>\<open>choices.Status\<close>, whose declaration is in package
  \<^verbatim>\<open>snow/choices\<close>. It is an integer type with the four named values of the spec
  (Processing, Accepted, Rejected, Unknown); the conversion
  \<^verbatim>\<open>choices.Status(resp.Status)\<close> keeps the wire value, so a wire value that is
  none of the four named ones is carried as \<open>Undefined\<close>.
\<close>
datatype Status = Unknown | Processing | Rejected | Accepted | Undefined "32 word"

subsection \<open>Helpers of other packages\<close>

text \<open>
  The file uses five declarations of other packages of the repository, whose sources
  are not at hand: the table \<^verbatim>\<open>errCodeToError\<close> (indexed by the response's error code; a code
  without an entry yields the nil error), \<^verbatim>\<open>ids.ToID\<close>, \<^verbatim>\<open>ids.Empty\<close>,
  \<^verbatim>\<open>choices.Status.Valid\<close> and \<^verbatim>\<open>grpcutils.TimestampAsTime\<close>. They are
  parameters of the model: every theorem holds for whatever they compute. The two
  decoders return a value and an error, as in Go.
\<close>
record Helpers =
  errCodeToError :: "32 word \<Rightarrow> error option"
  ids_ToID :: "bytes \<Rightarrow> ID \<times> error option"
  ids_Empty :: ID
  status_Valid :: "Status \<Rightarrow> error option"
  TimestampAsTime :: "timestamppb option \<Rightarrow> Time \<times> error option"

subsection \<open>Messages of the VM service\<close>

text \<open>
  The request and response messages of package \<^verbatim>\<open>proto/pb/vm\<close>, with the fields the
  adapter reads or writes. A field keeps its Go name behind the initials of its message.
\<close>

record VersionedDBServer =
  vds_ServerAddr :: string
  vds_Version :: string

record InitializeRequest =
  iq_NetworkId :: "32 word"
  iq_SubnetId :: bytes
  iq_ChainId :: bytes
  iq_NodeId :: bytes
  iq_XChainId :: bytes
  iq_AvaxAssetId :: bytes
  iq_GenesisBytes :: bytes
  iq_UpgradeBytes :: bytes
  iq_ConfigBytes :: bytes
  iq_DbServers :: "VersionedDBServer list"
  iq_ServerAddr :: string

record InitializeResponse =
  ir_LastAcceptedId :: bytes
  ir_LastAcceptedParentId :: bytes
  ir_Height :: "64 word"
  ir_Bytes :: bytes
  ir_Timestamp :: "timestamppb option"

record BuildBlockResponse =
  bb_Id :: bytes
  bb_ParentId :: bytes
  bb_Bytes :: bytes
  bb_Height :: "64 word"
  bb_Timestamp :: "timestamppb option"

record ParseBlockRequest =
  pq_Bytes :: bytes

record ParseBlockResponse =
  pb_Id :: bytes
  pb_ParentId :: bytes
  pb_Status :: Status
  pb_Height :: "64 word"
  pb_Timestamp :: "timestamppb option"

record GetBlockRequest =
  gq_Id :: bytes

record GetBlockResponse =
  gb_ParentId :: bytes
  gb_Bytes :: bytes
  gb_Status :: Status
  gb_Height :: "64 word"
  gb_Timestamp :: "timestamppb option"
  gb_Err :: "32 word"

record BatchedParseBlockRequest =
  bq_Request :: "bytes list"

record BatchedParseBlockResponse =
  bp_Response :: "ParseBlockResponse list"

record VerifyHeightIndexResponse =
  vhi_Err :: "32 word"

record GetBlockIDAtHeightRequest =
  hq_Height :: "64 word"

record GetBlockIDAtHeightResponse =
  hr_BlkId :: bytes
  hr_Err :: "32 word"

record StateSyncEnabledResponse =
  sse_Enabled :: bool
  sse_Err :: "32 word"

record BlockAcceptRequest =
  aq_Id :: bytes

record BlockRejectRequest =
  rq_Id :: bytes

record BlockVerifyRequest =
  vq_Bytes :: bytes

record BlockVerifyResponse =
  bv_Timestamp :: "timestamppb option"

text \<open>
  The RPC stub \<^verbatim>\<open>vm.client\<close>. The plugin is outside the program: each method is a
  function from the request to either a transport error (\<open>Inl\<close>) or the response
  (\<open>Inr\<close>). A method whose request is empty has no argument, and one whose response
  is empty answers \<open>()\<close>.
\<close>
record VMClientStub =
  client_Initialize :: "InitializeRequest \<Rightarrow> error + InitializeResponse"
  client_Shutdown :: "error + unit"
  client_BuildBlock :: "error + BuildBlockResponse"
  client_ParseBlock :: "ParseBlockRequest \<Rightarrow> error + ParseBlockResponse"
  client_GetBlock :: "GetBlockRequest \<Rightarrow> error + GetBlockResponse"
  client_BatchedParseBlock :: "BatchedParseBlockRequest \<Rightarrow> error + BatchedParseBlockResponse"
  client_VerifyHeightIndex :: "error + VerifyHeightIndexResponse"
  client_GetBlockIDAtHeight :: "GetBlockIDAtHeightRequest \<Rightarrow> error + GetBlockIDAtHeightResponse"
  client_StateSyncEnabled :: "error + StateSyncEnabledResponse"
  client_BlockAccept :: "BlockAcceptRequest \<Rightarrow> error + unit"
  client_BlockReject :: "BlockRejectRequest \<Rightarrow> error + unit"
  client_BlockVerify :: "BlockVerifyRequest \<Rightarrow> error + BlockVerifyResponse"

subsection \<open>The block handle\<close>

text \<open>
  \<^verbatim>\<open>blockClient\<close>. Its back pointer \<^verbatim>\<open>vm\<close> is only used to reach the stub
  \<^verbatim>\<open>b.vm.client\<close>, which the methods below take as an argument. The handle is
  mutable in Go; a method that assigns a field returns the handle after the call.
\<close>
record blockClient =
  id' :: ID
  parentID :: ID
  status :: Status
  bytes :: bytes
  height :: "64 word"
  time :: Time

definition ID :: "blockClient \<Rightarrow> ID" where
  "ID b = id' b"

definition Status :: "blockClient \<Rightarrow> Status" where
  "Status b = status b"

definition Parent :: "blockClient \<Rightarrow> ID" where
  "Parent b = parentID b"

definition Bytes :: "blockClient \<Rightarrow> bytes" where
  "Bytes b = bytes b"

definition Height :: "blockClient \<Rightarrow> 64 word" where
  "Height b = height b"


definition Accept :: "VMClientStub \<Rightarrow> blockClient \<Rightarrow> blockClient \<times> error option" where
  "Accept client b =
     (let b1 = b\<lparr>status := Accepted\<rparr>
      in (b1, case client_BlockAccept client \<lparr>aq_Id = id' b1\<rparr> of
                Inl err \<Rightarrow> Some err
              | Inr _ \<Rightarrow> None))"

definition Reject :: "VMClientStub \<Rightarrow> blockClient \<Rightarrow> blockClient \<times> error option" where
  "Reject client b =
     (let b1 = b\<lparr>status := Rejected\<rparr>
      in (b1, case client_BlockReject client \<lparr>rq_Id = id' b1\<rparr> of
                Inl err \<Rightarrow> Some err
              | Inr _ \<Rightarrow> None))"

definition Verify :: "Helpers \<Rightarrow> VMClientStub \<Rightarrow> blockClient \<Rightarrow> blockClient \<times> error option" where
  "Verify h client b =
     (case client_BlockVerify client \<lparr>vq_Bytes = bytes b\<rparr> of
        Inl err \<Rightarrow> (b, Some err)
      | Inr resp \<Rightarrow>
          (case TimestampAsTime h (bv_Timestamp resp) of
             (t, err) \<Rightarrow> (b\<lparr>time := t\<rparr>, err)))"

subsection \<open>Building, parsing and fetching blocks\<close>

definition buildBlock :: "Helpers \<Rightarrow> VMClientStub \<Rightarrow> blockClient option \<times> error option" where
  "buildBlock h client =
     (case client_BuildBlock client of
        Inl err \<Rightarrow> (None, Some err)
      | Inr resp \<Rightarrow>
          (case ids_ToID h (bb_Id resp) of
             (i, Some err) \<Rightarrow> (None, Some err)
           | (i, None) \<Rightarrow>
               (case ids_ToID h (bb_ParentId resp) of
                  (p, Some err) \<Rightarrow> (None, Some err)
                | (p, None) \<Rightarrow>
                    (case TimestampAsTime h (bb_Timestamp resp) of
                       (t, err) \<Rightarrow>
                         (Some \<lparr>id' = i, parentID = p, status = Processing,
                                bytes = bb_Bytes resp, height = bb_Height resp, time = t\<rparr>,
                          err)))))"

definition parseBlock ::
  "Helpers \<Rightarrow> VMClientStub \<Rightarrow> bytes \<Rightarrow> blockClient option \<times> error option" where
  "parseBlock h client bs =
     (case client_ParseBlock client \<lparr>pq_Bytes = bs\<rparr> of
        Inl err \<Rightarrow> (None, Some err)
      | Inr resp \<Rightarrow>
          (case ids_ToID h (pb_Id resp) of
             (i, Some err) \<Rightarrow> (None, Some err)
           | (i, None) \<Rightarrow>
               (case ids_ToID h (pb_ParentId resp) of
                  (p, Some err) \<Rightarrow> (None, Some err)
                | (p, None) \<Rightarrow>
                    (case status_Valid h (pb_Status resp) of
                       Some err \<Rightarrow> (None, Some err)
                     | None \<Rightarrow>
                         (case TimestampAsTime h (pb_Timestamp resp) of
                            (t, err) \<Rightarrow>
                              (Some \<lparr>id' = i, parentID = p, status = pb_Status resp,
                                     bytes = bs, height = pb_Height resp, time = t\<rparr>,
                               err))))))"

definition getBlock ::
  "Helpers \<Rightarrow> VMClientStub \<Rightarrow> ID \<Rightarrow> blockClient option \<times> error option" where
  "getBlock h client blkID =
     (case client_GetBlock client \<lparr>gq_Id = blkID\<rparr> of
        Inl err \<Rightarrow> (None, Some err)
      | Inr resp \<Rightarrow>
          if gb_Err resp \<noteq> 0 then (None, errCodeToError h (gb_Err resp))
          else
            (case ids_ToID h (gb_ParentId resp) of
               (p, Some err) \<Rightarrow> (None, Some err)
             | (p, None) \<Rightarrow>
                 (case status_Valid h (gb_Status resp) of
                    Some err \<Rightarrow> (None, Some err)
                  | None \<Rightarrow>
                      (case TimestampAsTime h (gb_Timestamp resp) of
                         (t, err) \<Rightarrow>
                           (Some \<lparr>id' = blkID, parentID = p, status = gb_Status resp,
                                  bytes = gb_Bytes resp, height = gb_Height resp, time = t\<rparr>,
                            err)))))"

text \<open>
  What a Go call does: it returns, or it panics (an index out of range). Only
  \<^verbatim>\<open>BatchedParseBlock\<close> indexes a slice.
\<close>
datatype 'a outcome = Returns 'a | Panics

text \<open>
  The loop of \<^verbatim>\<open>BatchedParseBlock\<close> over \<^verbatim>\<open>resp.Response\<close>: \<open>idx\<close> is the
  loop index and \<open>res\<close> the slice built so far.
\<close>
fun BatchedParseBlock_loop ::
  "Helpers \<Rightarrow> bytes list \<Rightarrow> ParseBlockResponse list \<Rightarrow> nat \<Rightarrow> blockClient list
     \<Rightarrow> (blockClient list option \<times> error option) outcome" where
  "BatchedParseBlock_loop h blksBytes [] idx res = Returns (Some res, None)"
| "BatchedParseBlock_loop h blksBytes (blkResp # rest) idx res =
     (case ids_ToID h (pb_Id blkResp) of
        (i, Some err) \<Rightarrow> Returns (None, Some err)
      | (i, None) \<Rightarrow>
          (case ids_ToID h (pb_ParentId blkResp) of
             (p, Some err) \<Rightarrow> Returns (None, Some err)
           | (p, None) \<Rightarrow>
               (case status_Valid h (pb_Status blkResp) of
                  Some err \<Rightarrow> Returns (None, Some err)
                | None \<Rightarrow>
                    (case TimestampAsTime h (pb_Timestamp blkResp) of
                       (t, Some err) \<Rightarrow> Returns (None, Some err)
                     | (t, None) \<Rightarrow>
                         if idx < length blksBytes
                         then BatchedParseBlock_loop h blksBytes rest (Suc idx)
                                (res @ [\<lparr>id' = i, parentID = p, status = pb_Status blkResp,
                                         bytes = blksBytes ! idx, height = pb_Height blkResp,
                                         time = t\<rparr>])
                         else Panics))))"

definition BatchedParseBlock ::
  "Helpers \<Rightarrow> VMClientStub \<Rightarrow> bytes list
     \<Rightarrow> (blockClient list option \<times> error option) outcome" where
  "BatchedParseBlock h client blksBytes =
     (case client_BatchedParseBlock client \<lparr>bq_Request = blksBytes\<rparr> of
        Inl err \<Rightarrow> Returns (None, Some err)
      | Inr resp \<Rightarrow>
          if length blksBytes \<noteq> length (bp_Response resp)
          then Returns (None, Some errBatchedParseBlockWrongNumberOfBlocks)
          else BatchedParseBlock_loop h blksBytes (bp_Response resp) 0 [])"

subsection \<open>Optional capabilities\<close>

definition VerifyHeightIndex :: "Helpers \<Rightarrow> VMClientStub \<Rightarrow> error option" where
  "VerifyHeightIndex h client =
     (case client_VerifyHeightIndex client of
        Inl err \<Rightarrow> Some err
      | Inr resp \<Rightarrow> errCodeToError h (vhi_Err resp))"

definition GetBlockIDAtHeight ::
  "Helpers \<Rightarrow> VMClientStub \<Rightarrow> 64 word \<Rightarrow> ID \<times> error option" where
  "GetBlockIDAtHeight h client hgt =
     (case client_GetBlockIDAtHeight client \<lparr>hq_Height = hgt\<rparr> of
        Inl err \<Rightarrow> (ids_Empty h, Some err)
      | Inr resp \<Rightarrow>
          if hr_Err resp \<noteq> 0 then (ids_Empty h, errCodeToError h (hr_Err resp))
          else ids_ToID h (hr_BlkId resp))"

definition StateSyncEnabled :: "Helpers \<Rightarrow> VMClientStub \<Rightarrow> bool \<times> error option" where
  "StateSyncEnabled h client =
     (case client_StateSyncEnabled client of
        Inl err \<Rightarrow> (False, Some err)
      | Inr resp \<Rightarrow>
          (let err = errCodeToError h (sse_Err resp)
           in if err = Some ErrStateSyncableVMNotImplemented then (False, None)
              else (sse_Enabled resp, err)))"

subsection \<open>The adapter: initialisation and shutdown\<close>

text \<open>
  \<^verbatim>\<open>snow.Context\<close>, with the identifiers that \<^verbatim>\<open>Initialize\<close> sends to the plugin.
  The subsystems it also holds (keystore, shared memory, lookups, validator state, logger,
  metrics) are outside the program.
\<close>
record snow_Context =
  NetworkID :: "32 word"
  SubnetID :: ID
  ChainID :: ID
  NodeID :: bytes
  XChainID :: ID
  AVAXAssetID :: ID

definition decidedCacheSize :: nat where
  "decidedCacheSize = 2048"

definition missingCacheSize :: nat where
  "missingCacheSize = 2048"

definition unverifiedCacheSize :: nat where
  "unverifiedCacheSize = 2048"

definition bytesToIDCacheSize :: nat where
  "bytesToIDCacheSize = 2048"

text \<open>
  The \<^verbatim>\<open>chain.State\<close> built by \<^verbatim>\<open>chain.NewMeteredState\<close>, as the configuration it
  is built from. The three callbacks of the configuration are the functions
  \<open>getBlock\<close>, \<open>parseBlock\<close> and \<open>buildBlock\<close> above.
\<close>
record chain_State =
  DecidedCacheSize :: nat
  MissingCacheSize :: nat
  UnverifiedCacheSize :: nat
  BytesToIDCacheSize :: nat
  LastAcceptedBlock :: blockClient

text \<open>
  \<^verbatim>\<open>VMClient\<close>. The stub \<^verbatim>\<open>client\<close> is an argument of every method; the process
  handle \<^verbatim>\<open>proc\<close>, the tracker and the server closer are outside the program and are
  reached through the effects below. A proxy server field holds whether the pointer is
  set; a connection of \<^verbatim>\<open>conns\<close> is known by its number.
\<close>
record VMClient =
  State :: "chain_State option"
  pid :: int
  messenger :: bool
  keystore :: bool
  sharedMemory :: bool
  bcLookup :: bool
  snLookup :: bool
  appSender :: bool
  validatorStateServer :: bool
  conns :: "nat list"
  grpcServerMetrics :: bool
  ctx :: "snow_Context option"

text \<open>
  What the node's own collaborators answer when the adapter calls them:
  \<^verbatim>\<open>registerer.Register\<close>, \<^verbatim>\<open>multiGatherer.Register\<close> (by namespace),
  \<^verbatim>\<open>grpcutils.NewListener\<close> (the address of the listener, by the number of listeners
  opened before), \<^verbatim>\<open>chain.NewMeteredState\<close>, \<^verbatim>\<open>vm.ctx.Metrics.Register\<close> and
  \<^verbatim>\<open>conn.Close\<close> (by connection).
\<close>
record Node =
  registerer_Register :: "error option"
  multiGatherer_Register :: "string \<Rightarrow> error option"
  NewListener :: "nat \<Rightarrow> string \<times> error option"
  NewMeteredState :: "error option"
  Metrics_Register :: "error option"
  conn_Close :: "nat \<Rightarrow> error option"

text \<open>
  The effects of the adapter outside its own fields, in the order they happen: calls on
  the collaborators, servers started, log lines, and the remote calls of
  \<^verbatim>\<open>Initialize\<close> and \<^verbatim>\<open>Shutdown\<close>.
\<close>
datatype event =
    RegisterServerMetrics
  | MultiGathererRegister string
  | OpenListener
  | ServeDatabase string string
  | LogInfo string
  | ServeVMServices string
  | RemoteInitialize InitializeRequest
  | NewMeteredStateCall
  | ContextMetricsRegister
  | RemoteShutdown
  | ServerCloserStop
  | ConnClose nat
  | ProcKill
  | UntrackProcess int

text \<open>
  The loop of \<^verbatim>\<open>Initialize\<close> over the versioned databases (each known by its version
  string): \<open>i\<close> is the loop index, \<open>srvs\<close> the entries of \<^verbatim>\<open>versionedDBServers\<close>
  written so far and \<open>evs\<close> the effects so far.
\<close>
fun Initialize_dbLoop ::
  "Node \<Rightarrow> string list \<Rightarrow> nat \<Rightarrow> VersionedDBServer list \<Rightarrow> event list
     \<Rightarrow> VersionedDBServer list \<times> event list \<times> error option" where
  "Initialize_dbLoop node [] i srvs evs = (srvs, evs, None)"
| "Initialize_dbLoop node (dbVersion # rest) i srvs evs =
     (case NewListener node i of
        (a, Some err) \<Rightarrow> (srvs, evs @ [OpenListener], Some err)
      | (serverAddr, None) \<Rightarrow>
          Initialize_dbLoop node rest (Suc i)
            (srvs @ [\<lparr>vds_ServerAddr = serverAddr, vds_Version = dbVersion\<rparr>])
            (evs @ [OpenListener, ServeDatabase dbVersion serverAddr,
                    LogInfo ''grpc: serving database'']))"

text \<open>
  \<^verbatim>\<open>Initialize\<close> returns the adapter after the call, the effects of the call and the
  error. The arguments \<^verbatim>\<open>toEngine\<close> and \<^verbatim>\<open>appSender\<close> are only handed to the proxy
  servers and are left out; the database manager is the list of its databases' versions.
\<close>
definition Initialize ::
  "Helpers \<Rightarrow> Node \<Rightarrow> VMClientStub \<Rightarrow> VMClient \<Rightarrow> snow_Context \<Rightarrow> string list
     \<Rightarrow> bytes \<Rightarrow> bytes \<Rightarrow> bytes \<Rightarrow> 'fx list \<Rightarrow> VMClient \<times> event list \<times> error option" where
  "Initialize h node client vm chainCtx versionedDBs genesisBytes upgradeBytes configBytes fxs =
     (if length fxs \<noteq> 0 then (vm, [], Some errUnsupportedFXs)
      else
        (let vm1 = vm\<lparr>ctx := Some chainCtx, grpcServerMetrics := True\<rparr>;
             ev1 = [RegisterServerMetrics]
         in (case registerer_Register node of
              Some err \<Rightarrow> (vm1, ev1, Some err)
            | None \<Rightarrow>
        (let ev2 = ev1 @ [MultiGathererRegister ''rpcchainvm'']
         in (case multiGatherer_Register node ''rpcchainvm'' of
              Some err \<Rightarrow> (vm1, ev2, Some err)
            | None \<Rightarrow>
        (let ev3 = ev2 @ [MultiGathererRegister '''']
         in (case multiGatherer_Register node '''' of
              Some err \<Rightarrow> (vm1, ev3, Some err)
            | None \<Rightarrow>
        (case Initialize_dbLoop node versionedDBs 0 [] ev3 of
              (srvs, ev4, Some err) \<Rightarrow> (vm1, ev4, Some err)
            | (versionedDBServers, ev4, None) \<Rightarrow>
        (let vm2 = vm1\<lparr>messenger := True, keystore := True, sharedMemory := True,
                      bcLookup := True, snLookup := True, appSender := True,
                      validatorStateServer := True\<rparr>;
             ev5 = ev4 @ [OpenListener]
         in (case NewListener node (length versionedDBs) of
              (a, Some err) \<Rightarrow> (vm2, ev5, Some err)
            | (serverAddr, None) \<Rightarrow>
        (let req = \<lparr>iq_NetworkId = NetworkID chainCtx, iq_SubnetId = SubnetID chainCtx,
                   iq_ChainId = ChainID chainCtx, iq_NodeId = NodeID chainCtx,
                   iq_XChainId = XChainID chainCtx, iq_AvaxAssetId = AVAXAssetID chainCtx,
                   iq_GenesisBytes = genesisBytes, iq_UpgradeBytes = upgradeBytes,
                   iq_ConfigBytes = configBytes, iq_DbServers = versionedDBServers,
                   iq_ServerAddr = serverAddr\<rparr>;
             ev6 = ev5 @ [ServeVMServices serverAddr, LogInfo ''grpc: serving vm services'',
                         RemoteInitialize req]
         in (case client_Initialize client req of
              Inl err \<Rightarrow> (vm2, ev6, Some err)
            | Inr resp \<Rightarrow>
        (case ids_ToID h (ir_LastAcceptedId resp) of
              (i, Some err) \<Rightarrow> (vm2, ev6, Some err)
            | (i, None) \<Rightarrow>
        (case ids_ToID h (ir_LastAcceptedParentId resp) of
              (p, Some err) \<Rightarrow> (vm2, ev6, Some err)
            | (p, None) \<Rightarrow>
        (case TimestampAsTime h (ir_Timestamp resp) of
              (t, Some err) \<Rightarrow> (vm2, ev6, Some err)
            | (t, None) \<Rightarrow>
        (let lastAcceptedBlk = \<lparr>id' = i, parentID = p, status = Accepted,
                               bytes = ir_Bytes resp, height = ir_Height resp, time = t\<rparr>;
             ev7 = ev6 @ [NewMeteredStateCall]
         in (case NewMeteredState node of
              Some err \<Rightarrow> (vm2, ev7, Some err)
            | None \<Rightarrow>
        (let vm3 = vm2\<lparr>State := Some \<lparr>DecidedCacheSize = decidedCacheSize,
                                      MissingCacheSize = missingCacheSize,
                                      UnverifiedCacheSize = unverifiedCacheSize,
                                      BytesToIDCacheSize = bytesToIDCacheSize,
                                      LastAcceptedBlock = lastAcceptedBlk\<rparr>\<rparr>
         in (vm3, ev7 @ [ContextMetricsRegister], Metrics_Register node)))))))))))))))))))"

text \<open>
  Modelled from the spec: \<^verbatim>\<open>wrappers.Errs\<close> and its method \<^verbatim>\<open>Add\<close>, of package
  \<^verbatim>\<open>utils/wrappers\<close>. The spec has the aggregate "return first error encountered,
  continuing through the rest": the aggregate holds one error, nil at first, and adding
  an error stores it unless an error is stored already.
\<close>
definition Errs_Add :: "error option \<Rightarrow> error option \<Rightarrow> error option" where
  "Errs_Add errs err = (case errs of None \<Rightarrow> err | Some e \<Rightarrow> Some e)"

text \<open>The loop of \<^verbatim>\<open>Shutdown\<close> over \<^verbatim>\<open>vm.conns\<close>.\<close>
fun Shutdown_closeLoop ::
  "Node \<Rightarrow> nat list \<Rightarrow> error option \<Rightarrow> event list \<Rightarrow> error option \<times> event list" where
  "Shutdown_closeLoop node [] errs evs = (errs, evs)"
| "Shutdown_closeLoop node (conn # rest) errs evs =
     Shutdown_closeLoop node rest (Errs_Add errs (conn_Close node conn)) (evs @ [ConnClose conn])"

text \<open>
  \<^verbatim>\<open>Shutdown\<close> assigns no field of the adapter; it returns its effects and its error.
  The adapter is one to which \<^verbatim>\<open>SetProcess\<close> has given a process.
\<close>
definition Shutdown :: "Node \<Rightarrow> VMClientStub \<Rightarrow> VMClient \<Rightarrow> event list \<times> error option" where
  "Shutdown node client vm =
     (let errs0 = None;
          err = (case client_Shutdown client of Inl e \<Rightarrow> Some e | Inr u \<Rightarrow> None);
          errs1 = Errs_Add errs0 err;
          evs1 = [RemoteShutdown, ServerCloserStop]
      in case Shutdown_closeLoop node (conns vm) errs1 evs1 of
           (errs2, evs2) \<Rightarrow> (evs2 @ [ProcKill, UntrackProcess (pid vm)], errs2))"

text \<open>
  The first non-nil error of a list of errors, in the words of the spec ("the first
  non-nil error is reported"); \<^verbatim>\<open>Shutdown\<close> is compared with it.
\<close>
fun first_non_nil :: "error option list \<Rightarrow> error option" where
  "first_non_nil [] = None"
| "first_non_nil (None # es) = first_non_nil es"
| "first_non_nil (Some e # es) = Some e"

subsection \<open>Decoded entries and paired handles\<close>

text \<open>
  A response entry decodes when each of the four checks of the loop of
  \<^verbatim>\<open>BatchedParseBlock\<close> passes on it; the handle paired with input bytes \<open>bs\<close> and a
  response entry \<open>r\<close> has the bytes \<open>bs\<close> and the decoded fields of \<open>r\<close>.
\<close>
definition decodes :: "Helpers \<Rightarrow> ParseBlockResponse \<Rightarrow> bool" where
  "decodes h r =
     (snd (ids_ToID h (pb_Id r)) = None \<and> snd (ids_ToID h (pb_ParentId r)) = None
      \<and> status_Valid h (pb_Status r) = None \<and> snd (TimestampAsTime h (pb_Timestamp r)) = None)"

definition pairedHandle :: "Helpers \<Rightarrow> bytes \<Rightarrow> ParseBlockResponse \<Rightarrow> blockClient" where
  "pairedHandle h bs r =
     \<lparr>id' = fst (ids_ToID h (pb_Id r)), parentID = fst (ids_ToID h (pb_ParentId r)),
      status = pb_Status r, bytes = bs, height = pb_Height r,
      time = fst (TimestampAsTime h (pb_Timestamp r))\<rparr>"

subsection \<open>A concrete plugin and concrete helpers\<close>

text \<open>
  Concrete inputs on which the theorems are exercised: an error-code table with five
  entries, identifiers of four bytes, every named status valid, and timestamps that
  decode unless the pointer is nil.
\<close>
definition sampleTable :: "32 word \<Rightarrow> error option" where
  "sampleTable c =
     (if c = 1 then Some (OtherError ''closed'')
      else if c = 2 then Some (OtherError ''not found'')
      else if c = 3 then Some (OtherError ''height index not implemented'')
      else if c = 4 then Some (OtherError ''index incomplete'')
      else if c = 5 then Some ErrStateSyncableVMNotImplemented
      else None)"

definition sampleToID :: "bytes \<Rightarrow> ID \<times> error option" where
  "sampleToID bs =
     (if length bs = 4 then (bs, None) else ([0, 0, 0, 0], Some (OtherError ''bad id length'')))"

definition sampleValid :: "Status \<Rightarrow> error option" where
  "sampleValid s = (case s of Undefined w \<Rightarrow> Some (OtherError ''unknown status'') | _ \<Rightarrow> None)"

definition sampleTimestampAsTime :: "timestamppb option \<Rightarrow> Time \<times> error option" where
  "sampleTimestampAsTime ts =
     (case ts of
        None \<Rightarrow> (0, Some (OtherError ''invalid timestamp''))
      | Some t \<Rightarrow> (int (unat (Seconds t)) * 1000000000 + int (unat (Nanos t)), None))"

definition sampleHelpers :: Helpers where
  "sampleHelpers =
     \<lparr> errCodeToError = sampleTable, ids_ToID = sampleToID, ids_Empty = [0, 0, 0, 0],
       status_Valid = sampleValid, TimestampAsTime = sampleTimestampAsTime \<rparr>"

text \<open>A stub whose every call fails in transport; the examples override one method.\<close>
definition deadStub :: VMClientStub where
  "deadStub =
     \<lparr> client_Initialize = (\<lambda>req. Inl (OtherError ''unavailable'')),
       client_Shutdown = Inl (OtherError ''unavailable''),
       client_BuildBlock = Inl (OtherError ''unavailable''),
       client_ParseBlock = (\<lambda>req. Inl (OtherError ''unavailable'')),
       client_GetBlock = (\<lambda>req. Inl (OtherError ''unavailable'')),
       client_BatchedParseBlock = (\<lambda>req. Inl (OtherError ''unavailable'')),
       client_VerifyHeightIndex = Inl (OtherError ''unavailable''),
       client_GetBlockIDAtHeight = (\<lambda>req. Inl (OtherError ''unavailable'')),
       client_StateSyncEnabled = Inl (OtherError ''unavailable''),
       client_BlockAccept = (\<lambda>req. Inl (OtherError ''unavailable'')),
       client_BlockReject = (\<lambda>req. Inl (OtherError ''unavailable'')),
       client_BlockVerify = (\<lambda>req. Inl (OtherError ''unavailable'')) \<rparr>"

text \<open>A block handle, a timestamp, an adapter, a chain context and a node.\<close>
definition sampleBlock :: blockClient where
  "sampleBlock =
     \<lparr> id' = [1, 2, 3, 4], parentID = [0, 0, 0, 9], status = Processing,
       bytes = [10, 20, 30], height = 7, time = 5 \<rparr>"

definition sampleStamp :: timestamppb where
  "sampleStamp = \<lparr> Seconds = 3, Nanos = 4 \<rparr>"

definition sampleVM :: VMClient where
  "sampleVM =
     \<lparr> State = None, pid = 4242, messenger = False, keystore = False, sharedMemory = False,
       bcLookup = False, snLookup = False, appSender = False, validatorStateServer = False,
       conns = [0, 1, 2], grpcServerMetrics = False, ctx = None \<rparr>"

definition sampleContext :: snow_Context where
  "sampleContext =
     \<lparr> NetworkID = 1, SubnetID = [0, 0, 0, 1], ChainID = [0, 0, 0, 2], NodeID = [7],
       XChainID = [0, 0, 0, 3], AVAXAssetID = [0, 0, 0, 4] \<rparr>"

text \<open>A node on which closing the connections 0 and 2 fails and everything else works.\<close>
definition sampleNode :: Node where
  "sampleNode =
     \<lparr> registerer_Register = None,
       multiGatherer_Register = (\<lambda>ns. None),
       NewListener = (\<lambda>k. (if k = 0 then ''127.0.0.1:1'' else ''127.0.0.1:2'', None)),
       NewMeteredState = None,
       Metrics_Register = None,
       conn_Close = (\<lambda>c. if c = 0 then Some (OtherError ''close 0'')
                          else if c = 2 then Some (OtherError ''close 2'') else None) \<rparr>"

section \<open>Theorems\<close>

text \<open>
  C1, as the specification states it, fails: when the plugin reports a non-zero code other
  than the not-implemented one, \<^verbatim>\<open>StateSyncEnabled\<close> returns the response's enabled
  flag with the error, not \<open>False\<close>. Here the plugin answers enabled = true with code 2.
\<close>
theorem C1_other_code_keeps_flag_counterexample:
  "StateSyncEnabled sampleHelpers
     (deadStub\<lparr>client_StateSyncEnabled := Inr \<lparr>sse_Enabled = True, sse_Err = 2\<rparr>\<rparr>)
   = (True, Some (OtherError ''not found''))
   \<and> StateSyncEnabled sampleHelpers
     (deadStub\<lparr>client_StateSyncEnabled := Inr \<lparr>sse_Enabled = True, sse_Err = 2\<rparr>\<rparr>)
   \<noteq> (False, errCodeToError sampleHelpers 2)"
  by (simp add: StateSyncEnabled_def sampleHelpers_def sampleTable_def deadStub_def)

text \<open>
  C1 (amended): for every \<^verbatim>\<open>StateSyncEnabled\<close> call whose RPC succeeds, if the
  response's error code translates to the not-implemented error the result is
  (false, no error); if it translates to anything else the result is (the response's
  enabled flag, the translation of the code); and, the table having no entry for code
  zero, code zero gives (the response's enabled flag, no error).
\<close>
theorem C1_StateSyncEnabled:
  assumes "client_StateSyncEnabled client = Inr resp"
  shows "(errCodeToError h (sse_Err resp) = Some ErrStateSyncableVMNotImplemented
            \<longrightarrow> StateSyncEnabled h client = (False, None))
       \<and> (errCodeToError h (sse_Err resp) \<noteq> Some ErrStateSyncableVMNotImplemented
            \<longrightarrow> StateSyncEnabled h client = (sse_Enabled resp, errCodeToError h (sse_Err resp)))
       \<and> (errCodeToError h 0 = None \<and> sse_Err resp = 0
            \<longrightarrow> StateSyncEnabled h client = (sse_Enabled resp, None))"
  using assms by (simp add: StateSyncEnabled_def)

text \<open>C1 at the codes 5 (not implemented), 4 and 0 of the sample table.\<close>
theorem C1_StateSyncEnabled_witness:
  "StateSyncEnabled sampleHelpers
     (deadStub\<lparr>client_StateSyncEnabled := Inr \<lparr>sse_Enabled = True, sse_Err = 5\<rparr>\<rparr>)
   = (False, None)
   \<and> StateSyncEnabled sampleHelpers
     (deadStub\<lparr>client_StateSyncEnabled := Inr \<lparr>sse_Enabled = True, sse_Err = 4\<rparr>\<rparr>)
   = (True, Some (OtherError ''index incomplete''))
   \<and> StateSyncEnabled sampleHelpers
     (deadStub\<lparr>client_StateSyncEnabled := Inr \<lparr>sse_Enabled = True, sse_Err = 0\<rparr>\<rparr>)
   = (True, None)"
proof -
  let ?c = "\<lambda>k. deadStub\<lparr>client_StateSyncEnabled := Inr \<lparr>sse_Enabled = True, sse_Err = k\<rparr>\<rparr>"
  have r: "\<And>k. client_StateSyncEnabled (?c k) = Inr \<lparr>sse_Enabled = True, sse_Err = k\<rparr>"
    by simp
  have t5: "errCodeToError sampleHelpers 5 = Some ErrStateSyncableVMNotImplemented"
    and t4: "errCodeToError sampleHelpers 4 = Some (OtherError ''index incomplete'')"
    and t0: "errCodeToError sampleHelpers 0 = None"
    by (simp_all add: sampleHelpers_def sampleTable_def)
  from C1_StateSyncEnabled [OF r, of sampleHelpers 5] t5
  have a: "StateSyncEnabled sampleHelpers (?c 5) = (False, None)" by simp
  from C1_StateSyncEnabled [OF r, of sampleHelpers 4] t4
  have b: "StateSyncEnabled sampleHelpers (?c 4) = (True, Some (OtherError ''index incomplete''))"
    by simp
  from C1_StateSyncEnabled [OF r, of sampleHelpers 0] t0
  have c: "StateSyncEnabled sampleHelpers (?c 0) = (True, None)" by simp
  from a b c show ?thesis by simp
qed

text \<open>
  The loop of \<^verbatim>\<open>BatchedParseBlock\<close> on entries that all decode: it never indexes
  out of range while the index and the rest of the response fit the input, and it appends
  the paired handles in order.
\<close>
lemma BatchedParseBlock_loop_decodes:
  "list_all (decodes h) rs \<Longrightarrow> idx + length rs \<le> length bb \<Longrightarrow>
   BatchedParseBlock_loop h bb rs idx res
     = Returns (Some (res @ map2 (pairedHandle h) (drop idx bb) rs), None)"
proof (induction rs arbitrary: idx res)
  case Nil
  then show ?case by simp
next
  case (Cons r rs)
  from Cons.prems have lt: "idx < length bb" and le: "Suc idx + length rs \<le> length bb"
    and d: "decodes h r" and ds: "list_all (decodes h) rs"
    by simp_all
  have dr: "drop idx bb = bb ! idx # drop (Suc idx) bb"
    using lt by (simp add: Cons_nth_drop_Suc)
  obtain i ei where a1: "ids_ToID h (pb_Id r) = (i, ei)"
    by (cases "ids_ToID h (pb_Id r)")
  obtain p ep where a2: "ids_ToID h (pb_ParentId r) = (p, ep)"
    by (cases "ids_ToID h (pb_ParentId r)")
  obtain t et where a3: "TimestampAsTime h (pb_Timestamp r) = (t, et)"
    by (cases "TimestampAsTime h (pb_Timestamp r)")
  from d a1 a2 a3 have n: "ei = None" "ep = None" "et = None"
    and v: "status_Valid h (pb_Status r) = None"
    by (simp_all add: decodes_def)
  show ?case
    by (simp add: Cons.IH [OF ds le] dr lt a1 a2 a3 n v pairedHandle_def)
qed

text \<open>
  C2: for every input list of N byte strings, when the RPC succeeds and the response list
  has a length other than N, \<^verbatim>\<open>BatchedParseBlock\<close> fails with the batch-count-mismatch
  error and returns no handles; when the response list has length N and every entry
  decodes, it returns exactly N handles in input order, the handle at position \<open>i\<close>
  carrying the input bytes at position \<open>i\<close> (the response has no bytes of its own)
  with the decoded id, parent, validated status, height and timestamp of response
  entry \<open>i\<close>.
\<close>
theorem C2_BatchedParseBlock:
  assumes "client_BatchedParseBlock client \<lparr>bq_Request = blksBytes\<rparr> = Inr resp"
  shows "(length (bp_Response resp) \<noteq> length blksBytes
            \<longrightarrow> BatchedParseBlock h client blksBytes
                  = Returns (None, Some errBatchedParseBlockWrongNumberOfBlocks))
       \<and> (length (bp_Response resp) = length blksBytes \<and> list_all (decodes h) (bp_Response resp)
            \<longrightarrow> (\<exists>hs. BatchedParseBlock h client blksBytes = Returns (Some hs, None)
                   \<and> hs = map2 (pairedHandle h) blksBytes (bp_Response resp)
                   \<and> length hs = length blksBytes
                   \<and> (\<forall>i < length blksBytes.
                         hs ! i = pairedHandle h (blksBytes ! i) (bp_Response resp ! i)
                         \<and> Bytes (hs ! i) = blksBytes ! i)))"
proof (intro conjI impI)
  assume "length (bp_Response resp) \<noteq> length blksBytes"
  with assms show "BatchedParseBlock h client blksBytes
      = Returns (None, Some errBatchedParseBlockWrongNumberOfBlocks)"
    by (auto simp add: BatchedParseBlock_def)
next
  assume a: "length (bp_Response resp) = length blksBytes \<and> list_all (decodes h) (bp_Response resp)"
  then have len: "length (bp_Response resp) = length blksBytes"
    and dec: "list_all (decodes h) (bp_Response resp)" by simp_all
  from len have le: "0 + length (bp_Response resp) \<le> length blksBytes" by simp
  let ?hs = "map2 (pairedHandle h) blksBytes (bp_Response resp)"
  have run: "BatchedParseBlock h client blksBytes = Returns (Some ?hs, None)"
    using assms len BatchedParseBlock_loop_decodes [OF dec le, of "[]"]
    by (simp add: BatchedParseBlock_def)
  have nth: "\<forall>i < length blksBytes.
      ?hs ! i = pairedHandle h (blksBytes ! i) (bp_Response resp ! i)
      \<and> Bytes (?hs ! i) = blksBytes ! i"
    using len by (simp add: Bytes_def pairedHandle_def)
  from run nth len show "\<exists>hs. BatchedParseBlock h client blksBytes = Returns (Some hs, None)
      \<and> hs = map2 (pairedHandle h) blksBytes (bp_Response resp)
      \<and> length hs = length blksBytes
      \<and> (\<forall>i < length blksBytes.
            hs ! i = pairedHandle h (blksBytes ! i) (bp_Response resp ! i)
            \<and> Bytes (hs ! i) = blksBytes ! i)"
    by simp
qed

text \<open>C2 on two inputs with two response entries, and on one input with two entries.\<close>
theorem C2_BatchedParseBlock_witness:
  "BatchedParseBlock sampleHelpers
     (deadStub\<lparr>client_BatchedParseBlock := (\<lambda>req. Inr \<lparr>bp_Response =
        [\<lparr>pb_Id = [1, 1, 1, 1], pb_ParentId = [0, 0, 0, 0], pb_Status = Accepted,
          pb_Height = 7, pb_Timestamp = Some sampleStamp\<rparr>,
         \<lparr>pb_Id = [2, 2, 2, 2], pb_ParentId = [1, 1, 1, 1], pb_Status = Processing,
          pb_Height = 8, pb_Timestamp = Some sampleStamp\<rparr>]\<rparr>)\<rparr>)
     [[5, 6], [7]]
   = Returns (Some
       [\<lparr>id' = [1, 1, 1, 1], parentID = [0, 0, 0, 0], status = Accepted,
         bytes = [5, 6], height = 7, time = 3000000004\<rparr>,
        \<lparr>id' = [2, 2, 2, 2], parentID = [1, 1, 1, 1], status = Processing,
         bytes = [7], height = 8, time = 3000000004\<rparr>], None)
   \<and> BatchedParseBlock sampleHelpers
     (deadStub\<lparr>client_BatchedParseBlock := (\<lambda>req. Inr \<lparr>bp_Response =
        [\<lparr>pb_Id = [1, 1, 1, 1], pb_ParentId = [0, 0, 0, 0], pb_Status = Accepted,
          pb_Height = 7, pb_Timestamp = Some sampleStamp\<rparr>,
         \<lparr>pb_Id = [2, 2, 2, 2], pb_ParentId = [1, 1, 1, 1], pb_Status = Processing,
          pb_Height = 8, pb_Timestamp = Some sampleStamp\<rparr>]\<rparr>)\<rparr>)
     [[5, 6]]
   = Returns (None, Some errBatchedParseBlockWrongNumberOfBlocks)"
proof -
  let ?es = "[\<lparr>pb_Id = [1, 1, 1, 1], pb_ParentId = [0, 0, 0, 0], pb_Status = Accepted,
                pb_Height = 7, pb_Timestamp = Some sampleStamp\<rparr>,
              \<lparr>pb_Id = [2, 2, 2, 2], pb_ParentId = [1, 1, 1, 1], pb_Status = Processing,
                pb_Height = 8, pb_Timestamp = Some sampleStamp\<rparr>]"
  let ?c = "deadStub\<lparr>client_BatchedParseBlock := (\<lambda>req. Inr \<lparr>bp_Response = ?es\<rparr>)\<rparr>"
  have r: "\<And>bb. client_BatchedParseBlock ?c \<lparr>bq_Request = bb\<rparr> = Inr \<lparr>bp_Response = ?es\<rparr>"
    by simp
  have d: "list_all (decodes sampleHelpers) ?es"
    by (simp add: decodes_def sampleHelpers_def sampleToID_def sampleValid_def
          sampleTimestampAsTime_def)
  have m: "map2 (pairedHandle sampleHelpers) [[5, 6], [7]] ?es
      = [\<lparr>id' = [1, 1, 1, 1], parentID = [0, 0, 0, 0], status = Accepted,
          bytes = [5, 6], height = 7, time = 3000000004\<rparr>,
         \<lparr>id' = [2, 2, 2, 2], parentID = [1, 1, 1, 1], status = Processing,
          bytes = [7], height = 8, time = 3000000004\<rparr>]"
    by (simp add: pairedHandle_def sampleHelpers_def sampleToID_def
          sampleTimestampAsTime_def sampleStamp_def)
  from C2_BatchedParseBlock [OF r, of "[[5, 6], [7]]" sampleHelpers] d m
  have a: "BatchedParseBlock sampleHelpers ?c [[5, 6], [7]]
      = Returns (Some
          [\<lparr>id' = [1, 1, 1, 1], parentID = [0, 0, 0, 0], status = Accepted,
            bytes = [5, 6], height = 7, time = 3000000004\<rparr>,
           \<lparr>id' = [2, 2, 2, 2], parentID = [1, 1, 1, 1], status = Processing,
            bytes = [7], height = 8, time = 3000000004\<rparr>], None)"
    by auto
  from C2_BatchedParseBlock [OF r, of "[[5, 6]]" sampleHelpers]
  have b: "BatchedParseBlock sampleHelpers ?c [[5, 6]]
      = Returns (None, Some errBatchedParseBlockWrongNumberOfBlocks)"
    by simp
  from a b show ?thesis by simp
qed

text \<open>
  C3, as the specification states it, fails: a non-zero error code does not always make the
  call fail. The error returned is the entry of \<^verbatim>\<open>errCodeToError\<close> for the code, and
  for a code without an entry that is the nil error. Here the plugin answers code 99,
  for which the sample table has no entry: \<^verbatim>\<open>getBlock\<close> returns no handle and no
  error, \<^verbatim>\<open>GetBlockIDAtHeight\<close> the empty identifier and no error.
\<close>
theorem C3_code_without_entry_counterexample:
  "getBlock sampleHelpers
     (deadStub\<lparr>client_GetBlock := (\<lambda>req. Inr \<lparr>gb_ParentId = [0, 0, 0, 9], gb_Bytes = [1],
        gb_Status = Accepted, gb_Height = 7, gb_Timestamp = Some sampleStamp, gb_Err = 99\<rparr>)\<rparr>)
     [1, 2, 3, 4]
   = (None, None)
   \<and> GetBlockIDAtHeight sampleHelpers
     (deadStub\<lparr>client_GetBlockIDAtHeight := (\<lambda>req. Inr \<lparr>hr_BlkId = [1, 2, 3, 4], hr_Err = 99\<rparr>)\<rparr>)
     7
   = ([0, 0, 0, 0], None)"
  by (simp add: getBlock_def GetBlockIDAtHeight_def sampleHelpers_def sampleTable_def
        deadStub_def)

text \<open>
  C3 (amended): when the RPC of \<^verbatim>\<open>getBlock\<close> or \<^verbatim>\<open>GetBlockIDAtHeight\<close> succeeds
  and the response carries a non-zero error code, the call returns no block handle
  (\<^verbatim>\<open>getBlock\<close>) or the empty identifier (\<^verbatim>\<open>GetBlockIDAtHeight\<close>) together with
  the entry of \<^verbatim>\<open>errCodeToError\<close> for that code: it fails with the typed error \<open>e\<close>
  when the table has the entry \<open>e\<close> for the code, and it returns no error when the
  table has no entry for the code. Every handle that \<^verbatim>\<open>getBlock\<close> returns has the
  requested identifier.
\<close>
theorem C3_error_code_results:
  "(client_GetBlock client \<lparr>gq_Id = blkID\<rparr> = Inr resp \<and> gb_Err resp \<noteq> 0
      \<longrightarrow> getBlock h client blkID = (None, errCodeToError h (gb_Err resp))
        \<and> (\<forall>e. errCodeToError h (gb_Err resp) = Some e
              \<longrightarrow> getBlock h client blkID = (None, Some e))
        \<and> (errCodeToError h (gb_Err resp) = None
              \<longrightarrow> getBlock h client blkID = (None, None)))
   \<and> (client_GetBlockIDAtHeight client \<lparr>hq_Height = hgt\<rparr> = Inr hresp \<and> hr_Err hresp \<noteq> 0
      \<longrightarrow> GetBlockIDAtHeight h client hgt = (ids_Empty h, errCodeToError h (hr_Err hresp))
        \<and> (\<forall>e. errCodeToError h (hr_Err hresp) = Some e
              \<longrightarrow> GetBlockIDAtHeight h client hgt = (ids_Empty h, Some e))
        \<and> (errCodeToError h (hr_Err hresp) = None
              \<longrightarrow> GetBlockIDAtHeight h client hgt = (ids_Empty h, None)))
   \<and> (\<forall>b e. getBlock h client blkID = (Some b, e) \<longrightarrow> ID b = blkID)"
  by (auto simp add: getBlock_def GetBlockIDAtHeight_def ID_def
        split: sum.splits prod.splits option.splits if_splits)

text \<open>
  C3 at the codes 2 and 4 of the sample table, at the code 7 that the sample table does
  not have, and at a successful fetch.
\<close>
theorem C3_error_code_results_witness:
  "getBlock sampleHelpers
     (deadStub\<lparr>client_GetBlock := (\<lambda>req. Inr \<lparr>gb_ParentId = [0, 0, 0, 9], gb_Bytes = [1],
        gb_Status = Accepted, gb_Height = 7, gb_Timestamp = Some sampleStamp, gb_Err = 2\<rparr>)\<rparr>)
     [1, 2, 3, 4]
   = (None, Some (OtherError ''not found''))
   \<and> getBlock sampleHelpers
     (deadStub\<lparr>client_GetBlock := (\<lambda>req. Inr \<lparr>gb_ParentId = [0, 0, 0, 9], gb_Bytes = [1],
        gb_Status = Accepted, gb_Height = 7, gb_Timestamp = Some sampleStamp, gb_Err = 7\<rparr>)\<rparr>)
     [1, 2, 3, 4]
   = (None, None)
   \<and> GetBlockIDAtHeight sampleHelpers
     (deadStub\<lparr>client_GetBlockIDAtHeight := (\<lambda>req. Inr \<lparr>hr_BlkId = [1, 2, 3, 4], hr_Err = 4\<rparr>)\<rparr>)
     7
   = ([0, 0, 0, 0], Some (OtherError ''index incomplete''))
   \<and> ID (the (fst (getBlock sampleHelpers
     (deadStub\<lparr>client_GetBlock := (\<lambda>req. Inr \<lparr>gb_ParentId = [0, 0, 0, 9], gb_Bytes = [1],
        gb_Status = Accepted, gb_Height = 7, gb_Timestamp = Some sampleStamp, gb_Err = 0\<rparr>)\<rparr>)
     [1, 2, 3, 4]))) = [1, 2, 3, 4]"
proof -
  let ?g = "\<lambda>k. deadStub\<lparr>client_GetBlock := (\<lambda>req. Inr \<lparr>gb_ParentId = [0, 0, 0, 9],
     gb_Bytes = [1], gb_Status = Accepted, gb_Height = 7, gb_Timestamp = Some sampleStamp,
     gb_Err = k\<rparr>)\<rparr>"
  let ?a = "deadStub\<lparr>client_GetBlockIDAtHeight :=
     (\<lambda>req. Inr \<lparr>hr_BlkId = [1, 2, 3, 4], hr_Err = 4\<rparr>)\<rparr>"
  have t: "errCodeToError sampleHelpers 2 = Some (OtherError ''not found'')"
    "errCodeToError sampleHelpers 4 = Some (OtherError ''index incomplete'')"
    "errCodeToError sampleHelpers 7 = None"
    "ids_Empty sampleHelpers = [0, 0, 0, 0]"
    by (simp_all add: sampleHelpers_def sampleTable_def)
  have ok: "getBlock sampleHelpers (?g 0) [1, 2, 3, 4]
      = (Some \<lparr>id' = [1, 2, 3, 4], parentID = [0, 0, 0, 9], status = Accepted, bytes = [1],
               height = 7, time = 3000000004\<rparr>, None)"
    by (simp add: getBlock_def sampleHelpers_def sampleToID_def sampleValid_def
          sampleTimestampAsTime_def sampleStamp_def deadStub_def)
  from C3_error_code_results [where client = "?g 2" and blkID = "[1, 2, 3, 4]" and h = sampleHelpers] t
  have a: "getBlock sampleHelpers (?g 2) [1, 2, 3, 4] = (None, Some (OtherError ''not found''))"
    by simp
  from C3_error_code_results [where client = "?g 7" and blkID = "[1, 2, 3, 4]" and h = sampleHelpers] t
  have n: "getBlock sampleHelpers (?g 7) [1, 2, 3, 4] = (None, None)"
    by simp
  from C3_error_code_results [where client = ?a and hgt = 7 and h = sampleHelpers] t
  have b: "GetBlockIDAtHeight sampleHelpers ?a 7
      = ([0, 0, 0, 0], Some (OtherError ''index incomplete''))"
    by simp
  from C3_error_code_results [where client = "?g 0" and blkID = "[1, 2, 3, 4]" and h = sampleHelpers] ok
  have c: "ID (the (fst (getBlock sampleHelpers (?g 0) [1, 2, 3, 4]))) = [1, 2, 3, 4]"
    by simp
  from a n b c show ?thesis by simp
qed



text \<open>
  C5, as the specification states it, fails: a handle does not restrict its status to one
  change out of Processing. A Processing handle that is accepted and then rejected goes
  from Processing to Accepted and from Accepted to Rejected.
\<close>
theorem C5_accept_then_reject_counterexample:
  "Status sampleBlock = Processing
   \<and> Status (fst (Accept deadStub sampleBlock)) = Accepted
   \<and> Status (fst (Reject deadStub (fst (Accept deadStub sampleBlock)))) = Rejected"
  by (simp add: Accept_def Reject_def Status_def sampleBlock_def)

text \<open>
  C5 (amended): \<^verbatim>\<open>Accept\<close> sets the status of the handle to Accepted and
  \<^verbatim>\<open>Reject\<close> sets it to Rejected, whatever the status was and whatever the remote call
  answers: when the RPC fails the handle is returned with the new status and the error.
  \<^verbatim>\<open>Verify\<close> never changes the status.
\<close>
theorem C5_status_changes:
  "Status (fst (Accept client b)) = Accepted
   \<and> Status (fst (Reject client b)) = Rejected
   \<and> Status (fst (Verify h client b)) = Status b
   \<and> (\<forall>err. client_BlockAccept client \<lparr>aq_Id = id' b\<rparr> = Inl err
          \<longrightarrow> Accept client b = (b\<lparr>status := Accepted\<rparr>, Some err))
   \<and> (\<forall>err. client_BlockReject client \<lparr>rq_Id = id' b\<rparr> = Inl err
          \<longrightarrow> Reject client b = (b\<lparr>status := Rejected\<rparr>, Some err))"
  by (simp add: Accept_def Reject_def Verify_def Status_def split: sum.splits prod.splits)

text \<open>C5 on a plugin whose calls fail in transport.\<close>
theorem C5_status_changes_witness:
  "Accept deadStub sampleBlock
     = (sampleBlock\<lparr>status := Accepted\<rparr>, Some (OtherError ''unavailable''))
   \<and> Reject deadStub sampleBlock
     = (sampleBlock\<lparr>status := Rejected\<rparr>, Some (OtherError ''unavailable''))"
proof -
  have r: "client_BlockAccept deadStub \<lparr>aq_Id = id' sampleBlock\<rparr> = Inl (OtherError ''unavailable'')"
    "client_BlockReject deadStub \<lparr>rq_Id = id' sampleBlock\<rparr> = Inl (OtherError ''unavailable'')"
    by (simp_all add: deadStub_def)
  from C5_status_changes [where client = deadStub and b = sampleBlock] r
  show ?thesis by simp
qed

text \<open>The loop of \<^verbatim>\<open>Shutdown\<close> closes every connection and keeps the first error.\<close>
lemma Shutdown_closeLoop_eq:
  "Shutdown_closeLoop node cs errs evs
     = (first_non_nil (errs # map (conn_Close node) cs), evs @ map ConnClose cs)"
proof (induction cs arbitrary: errs evs)
  case Nil
  show ?case by (cases errs) simp_all
next
  case (Cons c cs)
  show ?case by (cases errs) (simp_all add: Cons.IH Errs_Add_def)
qed

text \<open>
  C6: every \<^verbatim>\<open>Shutdown\<close> call performs all its steps, whatever fails: it asks the
  plugin to stop, stops the local servers, closes every connection of \<^verbatim>\<open>vm.conns\<close>
  in order, kills the process and untracks its pid; and it returns the first non-nil
  error among the error of the remote call and the errors of the closes, in that order.
\<close>
theorem C6_Shutdown:
  "Shutdown node client vm
     = ([RemoteShutdown, ServerCloserStop] @ map ConnClose (conns vm)
          @ [ProcKill, UntrackProcess (pid vm)],
        first_non_nil ((case client_Shutdown client of Inl e \<Rightarrow> Some e | Inr u \<Rightarrow> None)
                       # map (conn_Close node) (conns vm)))"
  by (simp add: Shutdown_def Shutdown_closeLoop_eq Errs_Add_def)

text \<open>
  C6 on three connections of which two fail to close: once with a failing remote call,
  once with a remote call that succeeds.
\<close>
theorem C6_Shutdown_witness:
  "Shutdown sampleNode deadStub sampleVM
     = ([RemoteShutdown, ServerCloserStop, ConnClose 0, ConnClose 1, ConnClose 2, ProcKill,
         UntrackProcess 4242], Some (OtherError ''unavailable''))
   \<and> Shutdown sampleNode (deadStub\<lparr>client_Shutdown := Inr ()\<rparr>) (sampleVM\<lparr>conns := [1, 2, 0]\<rparr>)
     = ([RemoteShutdown, ServerCloserStop, ConnClose 1, ConnClose 2, ConnClose 0, ProcKill,
         UntrackProcess 4242], Some (OtherError ''close 2''))"
proof -
  have a: "conns sampleVM = [0, 1, 2]" "pid sampleVM = 4242"
    "client_Shutdown deadStub = Inl (OtherError ''unavailable'')"
    "conn_Close sampleNode 0 = Some (OtherError ''close 0'')"
    "conn_Close sampleNode 1 = None"
    "conn_Close sampleNode 2 = Some (OtherError ''close 2'')"
    by (simp_all add: sampleVM_def deadStub_def sampleNode_def)
  from C6_Shutdown [of sampleNode deadStub sampleVM]
       C6_Shutdown [of sampleNode "deadStub\<lparr>client_Shutdown := Inr ()\<rparr>"
                       "sampleVM\<lparr>conns := [1, 2, 0]\<rparr>"] a
  show ?thesis by simp
qed

text \<open>
  C7: for every \<^verbatim>\<open>VerifyHeightIndex\<close> call whose RPC succeeds, the result is exactly
  the translation of the response's error code: the table having no entry for zero, code
  zero gives no error; and a code whose entry is the error \<open>e\<close> (the not-implemented
  code in particular) gives that very error, which is not the nil of success and differs
  from the result of every call that ends in another error.
\<close>
theorem C7_VerifyHeightIndex:
  assumes "client_VerifyHeightIndex client = Inr resp"
  shows "VerifyHeightIndex h client = errCodeToError h (vhi_Err resp)
       \<and> (errCodeToError h 0 = None \<and> vhi_Err resp = 0 \<longrightarrow> VerifyHeightIndex h client = None)
       \<and> (\<forall>e. errCodeToError h (vhi_Err resp) = Some e
            \<longrightarrow> VerifyHeightIndex h client = Some e
              \<and> VerifyHeightIndex h client \<noteq> None
              \<and> (\<forall>client' e'. VerifyHeightIndex h client' = Some e' \<and> e' \<noteq> e
                    \<longrightarrow> VerifyHeightIndex h client' \<noteq> VerifyHeightIndex h client))"
  using assms by (simp add: VerifyHeightIndex_def)

text \<open>C7 at the codes 3 and 0 of the sample table.\<close>
theorem C7_VerifyHeightIndex_witness:
  "VerifyHeightIndex sampleHelpers
     (deadStub\<lparr>client_VerifyHeightIndex := Inr \<lparr>vhi_Err = 3\<rparr>\<rparr>)
   = Some (OtherError ''height index not implemented'')
   \<and> VerifyHeightIndex sampleHelpers
     (deadStub\<lparr>client_VerifyHeightIndex := Inr \<lparr>vhi_Err = 0\<rparr>\<rparr>) = None"
proof -
  let ?c = "\<lambda>k. deadStub\<lparr>client_VerifyHeightIndex := Inr \<lparr>vhi_Err = k\<rparr>\<rparr>"
  have r: "\<And>k. client_VerifyHeightIndex (?c k) = Inr \<lparr>vhi_Err = k\<rparr>"
    by simp
  have t3: "errCodeToError sampleHelpers 3 = Some (OtherError ''height index not implemented'')"
    and t0: "errCodeToError sampleHelpers 0 = None"
    by (simp_all add: sampleHelpers_def sampleTable_def)
  from C7_VerifyHeightIndex [OF r, of sampleHelpers 3] t3
  have a: "VerifyHeightIndex sampleHelpers (?c 3)
             = Some (OtherError ''height index not implemented'')" by simp
  from C7_VerifyHeightIndex [OF r, of sampleHelpers 0] t0
  have b: "VerifyHeightIndex sampleHelpers (?c 0) = None" by simp
  from a b show ?thesis by simp
qed

text \<open>
  C8: with a non-empty list of feature extensions, \<^verbatim>\<open>Initialize\<close> returns the
  unsupported-feature-extensions error, leaves the adapter as it was and has no effect:
  no metrics registered, no listener opened, no server started, no remote call.
\<close>
theorem C8_Initialize_fxs:
  assumes "fxs \<noteq> []"
  shows "Initialize h node client vm chainCtx versionedDBs genesisBytes upgradeBytes configBytes fxs
           = (vm, [], Some errUnsupportedFXs)"
  using assms by (simp add: Initialize_def)

text \<open>C8 with one feature extension.\<close>
theorem C8_Initialize_fxs_witness:
  "Initialize sampleHelpers sampleNode deadStub sampleVM sampleContext [''v1.0.0''] [1] [2] [3]
     [()] = (sampleVM, [], Some errUnsupportedFXs)"
  using C8_Initialize_fxs [of "[()]" sampleHelpers sampleNode deadStub sampleVM sampleContext
                              "[''v1.0.0'']" "[1]" "[2]" "[3]"]
  by simp

text \<open>
  For comparison, \<^verbatim>\<open>Initialize\<close> with no feature extension and one database of
  version v1.0.0, on a plugin that answers the remote call.
\<close>
lemma Initialize_example:
  "Initialize sampleHelpers sampleNode
     (deadStub\<lparr>client_Initialize := (\<lambda>req. Inr \<lparr>ir_LastAcceptedId = [1, 2, 3, 4],
        ir_LastAcceptedParentId = [0, 0, 0, 9], ir_Height = 7, ir_Bytes = [10, 20, 30],
        ir_Timestamp = Some sampleStamp\<rparr>)\<rparr>)
     sampleVM sampleContext [''v1.0.0''] [1] [2] [3] ([] :: unit list)
   = (sampleVM\<lparr>ctx := Some sampleContext, grpcServerMetrics := True, messenger := True,
                keystore := True, sharedMemory := True, bcLookup := True, snLookup := True,
                appSender := True, validatorStateServer := True,
                State := Some \<lparr>DecidedCacheSize = 2048, MissingCacheSize = 2048,
                                UnverifiedCacheSize = 2048, BytesToIDCacheSize = 2048,
                                LastAcceptedBlock =
                                  \<lparr>id' = [1, 2, 3, 4], parentID = [0, 0, 0, 9], status = Accepted,
                                   bytes = [10, 20, 30], height = 7, time = 3000000004\<rparr>\<rparr>\<rparr>,
      [RegisterServerMetrics, MultiGathererRegister ''rpcchainvm'', MultiGathererRegister '''',
       OpenListener, ServeDatabase ''v1.0.0'' ''127.0.0.1:1'', LogInfo ''grpc: serving database'',
       OpenListener, ServeVMServices ''127.0.0.1:2'', LogInfo ''grpc: serving vm services'',
       RemoteInitialize
         \<lparr>iq_NetworkId = 1, iq_SubnetId = [0, 0, 0, 1], iq_ChainId = [0, 0, 0, 2],
          iq_NodeId = [7], iq_XChainId = [0, 0, 0, 3], iq_AvaxAssetId = [0, 0, 0, 4],
          iq_GenesisBytes = [1], iq_UpgradeBytes = [2], iq_ConfigBytes = [3],
          iq_DbServers = [\<lparr>vds_ServerAddr = ''127.0.0.1:1'', vds_Version = ''v1.0.0''\<rparr>],
          iq_ServerAddr = ''127.0.0.1:2''\<rparr>,
       NewMeteredStateCall, ContextMetricsRegister],
      None)"
  by (simp add: Initialize_def sampleHelpers_def sampleNode_def sampleContext_def
        sampleToID_def sampleTimestampAsTime_def sampleStamp_def sampleVM_def
        decidedCacheSize_def missingCacheSize_def unverifiedCacheSize_def
        bytesToIDCacheSize_def Let_def)

text \<open>
  C9: a \<^verbatim>\<open>Verify\<close> call that succeeds returns the handle with its timestamp replaced
  by the value decoded from the response and nothing else changed; and whatever the call
  answers, the id, parent id, status, bytes and height of the handle are unchanged.
\<close>
theorem C9_Verify_frame:
  "(\<forall>resp. client_BlockVerify client \<lparr>vq_Bytes = bytes b\<rparr> = Inr resp
       \<and> snd (TimestampAsTime h (bv_Timestamp resp)) = None
       \<longrightarrow> Verify h client b = (b\<lparr>time := fst (TimestampAsTime h (bv_Timestamp resp))\<rparr>, None))
   \<and> ID (fst (Verify h client b)) = ID b
   \<and> Parent (fst (Verify h client b)) = Parent b
   \<and> Status (fst (Verify h client b)) = Status b
   \<and> Bytes (fst (Verify h client b)) = Bytes b
   \<and> Height (fst (Verify h client b)) = Height b"
  by (auto simp add: Verify_def ID_def Parent_def Status_def Bytes_def Height_def
        split: sum.splits prod.splits)

text \<open>C9 on the sample handle and a response with a timestamp.\<close>
theorem C9_Verify_frame_witness:
  "Verify sampleHelpers
     (deadStub\<lparr>client_BlockVerify := (\<lambda>req. Inr \<lparr>bv_Timestamp = Some sampleStamp\<rparr>)\<rparr>) sampleBlock
   = (sampleBlock\<lparr>time := 3000000004\<rparr>, None)"
proof -
  let ?c = "deadStub\<lparr>client_BlockVerify := (\<lambda>req. Inr \<lparr>bv_Timestamp = Some sampleStamp\<rparr>)\<rparr>"
  have r: "client_BlockVerify ?c \<lparr>vq_Bytes = bytes sampleBlock\<rparr>
      = Inr \<lparr>bv_Timestamp = Some sampleStamp\<rparr>"
    by simp
  have t: "TimestampAsTime sampleHelpers (Some sampleStamp) = (3000000004, None)"
    by (simp add: sampleHelpers_def sampleTimestampAsTime_def sampleStamp_def)
  from C9_Verify_frame [where client = ?c and b = sampleBlock and h = sampleHelpers] r t
  show ?thesis by simp
qed

text \<open>
  C10: when the decoding steps before the timestamp succeed (for \<^verbatim>\<open>getBlock\<close> they
  are reached with error code zero) and the timestamp fails to decode,
  \<^verbatim>\<open>buildBlock\<close>, \<^verbatim>\<open>parseBlock\<close> and \<^verbatim>\<open>getBlock\<close> return a constructed handle
  together with the decoding error. The timestamp of the handle is the value that
  \<^verbatim>\<open>grpcutils.TimestampAsTime\<close> returns beside its error (the zero time, for a decoder
  that returns the zero value with an error).
\<close>
theorem C10_handle_with_timestamp_error:
  "(\<forall>resp t e. client_BuildBlock client = Inr resp
       \<and> snd (ids_ToID h (bb_Id resp)) = None \<and> snd (ids_ToID h (bb_ParentId resp)) = None
       \<and> TimestampAsTime h (bb_Timestamp resp) = (t, Some e)
       \<longrightarrow> buildBlock h client
           = (Some \<lparr>id' = fst (ids_ToID h (bb_Id resp)),
                    parentID = fst (ids_ToID h (bb_ParentId resp)), status = Processing,
                    bytes = bb_Bytes resp, height = bb_Height resp, time = t\<rparr>, Some e))
   \<and> (\<forall>resp t e. client_ParseBlock client \<lparr>pq_Bytes = input\<rparr> = Inr resp
       \<and> snd (ids_ToID h (pb_Id resp)) = None \<and> snd (ids_ToID h (pb_ParentId resp)) = None
       \<and> status_Valid h (pb_Status resp) = None
       \<and> TimestampAsTime h (pb_Timestamp resp) = (t, Some e)
       \<longrightarrow> parseBlock h client input
           = (Some \<lparr>id' = fst (ids_ToID h (pb_Id resp)),
                    parentID = fst (ids_ToID h (pb_ParentId resp)), status = pb_Status resp,
                    bytes = input, height = pb_Height resp, time = t\<rparr>, Some e))
   \<and> (\<forall>resp t e. client_GetBlock client \<lparr>gq_Id = blkID\<rparr> = Inr resp \<and> gb_Err resp = 0
       \<and> snd (ids_ToID h (gb_ParentId resp)) = None
       \<and> status_Valid h (gb_Status resp) = None
       \<and> TimestampAsTime h (gb_Timestamp resp) = (t, Some e)
       \<longrightarrow> getBlock h client blkID
           = (Some \<lparr>id' = blkID, parentID = fst (ids_ToID h (gb_ParentId resp)),
                    status = gb_Status resp, bytes = gb_Bytes resp, height = gb_Height resp,
                    time = t\<rparr>, Some e))"
  by (auto simp add: buildBlock_def parseBlock_def getBlock_def
        split: sum.splits prod.splits option.splits)

text \<open>C10 on responses with a nil timestamp, which the sample decoder rejects with time 0.\<close>
theorem C10_handle_with_timestamp_error_witness:
  "buildBlock sampleHelpers
     (deadStub\<lparr>client_BuildBlock := Inr \<lparr>bb_Id = [1, 2, 3, 4], bb_ParentId = [0, 0, 0, 9],
        bb_Bytes = [10, 20, 30], bb_Height = 7, bb_Timestamp = None\<rparr>\<rparr>)
   = (Some \<lparr>id' = [1, 2, 3, 4], parentID = [0, 0, 0, 9], status = Processing,
            bytes = [10, 20, 30], height = 7, time = 0\<rparr>, Some (OtherError ''invalid timestamp''))
   \<and> parseBlock sampleHelpers
     (deadStub\<lparr>client_ParseBlock := (\<lambda>req. Inr \<lparr>pb_Id = [1, 2, 3, 4], pb_ParentId = [0, 0, 0, 9],
        pb_Status = Accepted, pb_Height = 7, pb_Timestamp = None\<rparr>)\<rparr>)
     [10, 20, 30]
   = (Some \<lparr>id' = [1, 2, 3, 4], parentID = [0, 0, 0, 9], status = Accepted,
            bytes = [10, 20, 30], height = 7, time = 0\<rparr>, Some (OtherError ''invalid timestamp''))
   \<and> getBlock sampleHelpers
     (deadStub\<lparr>client_GetBlock := (\<lambda>req. Inr \<lparr>gb_ParentId = [0, 0, 0, 9], gb_Bytes = [10, 20, 30],
        gb_Status = Rejected, gb_Height = 7, gb_Timestamp = None, gb_Err = 0\<rparr>)\<rparr>)
     [1, 2, 3, 4]
   = (Some \<lparr>id' = [1, 2, 3, 4], parentID = [0, 0, 0, 9], status = Rejected,
            bytes = [10, 20, 30], height = 7, time = 0\<rparr>, Some (OtherError ''invalid timestamp''))"
proof -
  let ?b = "deadStub\<lparr>client_BuildBlock := Inr \<lparr>bb_Id = [1, 2, 3, 4], bb_ParentId = [0, 0, 0, 9],
     bb_Bytes = [10, 20, 30], bb_Height = 7, bb_Timestamp = None\<rparr>\<rparr>"
  let ?p = "deadStub\<lparr>client_ParseBlock := (\<lambda>req. Inr \<lparr>pb_Id = [1, 2, 3, 4],
     pb_ParentId = [0, 0, 0, 9], pb_Status = Accepted, pb_Height = 7, pb_Timestamp = None\<rparr>)\<rparr>"
  let ?g = "deadStub\<lparr>client_GetBlock := (\<lambda>req. Inr \<lparr>gb_ParentId = [0, 0, 0, 9],
     gb_Bytes = [10, 20, 30], gb_Status = Rejected, gb_Height = 7, gb_Timestamp = None,
     gb_Err = 0\<rparr>)\<rparr>"
  have d: "ids_ToID sampleHelpers [1, 2, 3, 4] = ([1, 2, 3, 4], None)"
    "ids_ToID sampleHelpers [0, 0, 0, 9] = ([0, 0, 0, 9], None)"
    "status_Valid sampleHelpers Accepted = None"
    "status_Valid sampleHelpers Rejected = None"
    "TimestampAsTime sampleHelpers None = (0, Some (OtherError ''invalid timestamp''))"
    by (simp_all add: sampleHelpers_def sampleToID_def sampleValid_def sampleTimestampAsTime_def)
  from C10_handle_with_timestamp_error [where client = ?b and h = sampleHelpers] d
  have a: "buildBlock sampleHelpers ?b
      = (Some \<lparr>id' = [1, 2, 3, 4], parentID = [0, 0, 0, 9], status = Processing,
               bytes = [10, 20, 30], height = 7, time = 0\<rparr>,
         Some (OtherError ''invalid timestamp''))"
    by simp
  from C10_handle_with_timestamp_error
         [where client = ?p and input = "[10, 20, 30]" and h = sampleHelpers] d
  have b: "parseBlock sampleHelpers ?p [10, 20, 30]
      = (Some \<lparr>id' = [1, 2, 3, 4], parentID = [0, 0, 0, 9], status = Accepted,
               bytes = [10, 20, 30], height = 7, time = 0\<rparr>,
         Some (OtherError ''invalid timestamp''))"
    by simp
  from C10_handle_with_timestamp_error
         [where client = ?g and blkID = "[1, 2, 3, 4]" and h = sampleHelpers] d
  have c: "getBlock sampleHelpers ?g [1, 2, 3, 4]
      = (Some \<lparr>id' = [1, 2, 3, 4], parentID = [0, 0, 0, 9], status = Rejected,
               bytes = [10, 20, 30], height = 7, time = 0\<rparr>,
         Some (OtherError ''invalid timestamp''))"
    by simp
  from a b c show ?thesis by simp
qed

end
